theory Spec2Isabelle
  imports Main "HOL-Library.Sublist" "HOL-Library.Char_ord" "HOL-Library.List_Lexorder"
begin

section \<open>Strings and characters\<close>

text \<open>
  A Go string is a sequence of bytes; \<open>len\<close> counts bytes and \<open>s[i]\<close> reads one. The
  model uses \<^typ>\<open>string\<close> (a list of 8-bit characters). Go compares strings byte by
  byte, which is the lexicographic order on lists over the order of character codes.
\<close>

abbreviation LF :: char where "LF \<equiv> CHR 0x0A"
abbreviation CR :: char where "CR \<equiv> CHR 0x0D"

text \<open>\<open>strings.Contains(s, substr)\<close> of the Go standard library.\<close>

fun strings_Contains :: "string \<Rightarrow> string \<Rightarrow> bool" where
  "strings_Contains [] substr = (substr = [])"
| "strings_Contains (c # cs) substr =
     (take (length substr) (c # cs) = substr \<or> strings_Contains cs substr)"

section \<open>Batch splitting: \<open>reBatchSeparator.Split(script, -1)\<close>\<close>

text \<open>
  \<open>var reBatchSeparator = regexp.MustCompile(`(?m)^GO\n`)\<close> (utils.go, line 266).
  With the flag \<open>m\<close>, \<open>^\<close> holds at offset 0 and right after every line feed; the rest
  of the pattern is the three bytes \<open>G\<close>, \<open>O\<close>, line feed. \<open>separatorAt s i\<close> says
  that the expression matches \<open>s\<close> at byte offset \<open>i\<close>.
\<close>

definition lineStart :: "string \<Rightarrow> nat \<Rightarrow> bool" where
  "lineStart s i = (i = 0 \<or> s ! (i - 1) = LF)"

definition separatorAt :: "string \<Rightarrow> nat \<Rightarrow> bool" where
  "separatorAt s i = (lineStart s i \<and> take 3 (drop i s) = [CHR ''G'', CHR ''O'', LF])"

definition hasSeparatorMatch :: "string \<Rightarrow> bool" where
  "hasSeparatorMatch s = (\<exists>i < length s. separatorAt s i)"

text \<open>
  \<open>FindAllStringIndex(s, -1)\<close>: the successive leftmost matches, none overlapping an
  earlier one, each as the pair of its start and end offsets. A match of this
  expression is never empty, so the search resumes at the end of the previous match.
\<close>

function FindAllStringIndex_from :: "string \<Rightarrow> nat \<Rightarrow> (nat \<times> nat) list" where
  "FindAllStringIndex_from s pos =
     (if length s \<le> pos then []
      else if separatorAt s pos then (pos, pos + 3) # FindAllStringIndex_from s (pos + 3)
      else FindAllStringIndex_from s (pos + 1))"
  by pat_completeness auto
termination
  by (relation "measure (\<lambda>(s, pos). length s - pos)") auto

declare FindAllStringIndex_from.simps [simp del]

definition FindAllStringIndex :: "string \<Rightarrow> (nat \<times> nat) list" where
  "FindAllStringIndex s = FindAllStringIndex_from s 0"

text \<open>
  \<open>Regexp.Split(s, n)\<close> of Go's \<open>regexp\<close> package, at \<open>n = -1\<close>:
  \<^verbatim>\<open>
  if len(re.expr) > 0 && len(s) == 0 { return []string{""} }
  matches := re.FindAllStringIndex(s, n)
  strings := make([]string, 0, len(matches))
  beg := 0
  end := 0
  for _, match := range matches {
      end = match[0]
      if match[1] != 0 { strings = append(strings, s[beg:end]) }
      beg = match[1]
  }
  if end != len(s) { strings = append(strings, s[beg:]) }
  return strings
  \<close>
  The loop state is the triple of \<open>strings\<close>, \<open>beg\<close> and \<open>end\<close>.
\<close>

definition Split_step :: "string \<Rightarrow> nat \<times> nat \<Rightarrow> string list \<times> nat \<times> nat \<Rightarrow> string list \<times> nat \<times> nat" where
  "Split_step s match st =
     (case st of (strings, beg, en) \<Rightarrow>
        (if snd match \<noteq> 0 then strings @ [take (fst match - beg) (drop beg s)] else strings,
         snd match, fst match))"

definition Split :: "string \<Rightarrow> string list" where
  "Split s =
     (if length s = 0 then [[]]
      else case fold (Split_step s) (FindAllStringIndex s) ([], 0, 0) of
        (strings, beg, en) \<Rightarrow> if en \<noteq> length s then strings @ [drop beg s] else strings)"

section \<open>Statement emptiness: \<open>str.IsEmpty\<close>\<close>

text \<open>
  \<open>str.IsEmpty\<close> belongs to the library \<open>github.com/mgutz/str\<close>, which documents it
  as: returns true if the string is solely composed of whitespace. The model takes
  white space as Go's \<open>unicode.IsSpace\<close> does, on the UTF-8 bytes of the string: the
  six ASCII characters, U+0085 and U+00A0 on two bytes, and U+1680, U+2000 to U+200A,
  U+2028, U+2029, U+202F, U+205F and U+3000 on three bytes. \<open>spaceRuneLen s\<close> is the
  width in bytes of the white-space rune that \<open>s\<close> starts with, or 0 when it starts
  with none. The theorems below evaluate \<open>str_IsEmpty\<close> only on statements made of
  spaces and line feeds and on statements that start with a letter.
\<close>

definition asciiSpace :: "char \<Rightarrow> bool" where
  "asciiSpace c = (c \<in> set [CHR 0x09, LF, CHR 0x0B, CHR 0x0C, CR, CHR 0x20])"

definition spaceRunes2 :: "string list" where
  "spaceRunes2 = [[CHR 0xC2, CHR 0x85], [CHR 0xC2, CHR 0xA0]]"

definition spaceRunes3 :: "string list" where
  "spaceRunes3 =
     [[CHR 0xE1, CHR 0x9A, CHR 0x80],
      [CHR 0xE2, CHR 0x80, CHR 0x80], [CHR 0xE2, CHR 0x80, CHR 0x81],
      [CHR 0xE2, CHR 0x80, CHR 0x82], [CHR 0xE2, CHR 0x80, CHR 0x83],
      [CHR 0xE2, CHR 0x80, CHR 0x84], [CHR 0xE2, CHR 0x80, CHR 0x85],
      [CHR 0xE2, CHR 0x80, CHR 0x86], [CHR 0xE2, CHR 0x80, CHR 0x87],
      [CHR 0xE2, CHR 0x80, CHR 0x88], [CHR 0xE2, CHR 0x80, CHR 0x89],
      [CHR 0xE2, CHR 0x80, CHR 0x8A],
      [CHR 0xE2, CHR 0x80, CHR 0xA8], [CHR 0xE2, CHR 0x80, CHR 0xA9],
      [CHR 0xE2, CHR 0x80, CHR 0xAF], [CHR 0xE2, CHR 0x81, CHR 0x9F],
      [CHR 0xE3, CHR 0x80, CHR 0x80]]"

definition spaceRuneLen :: "string \<Rightarrow> nat" where
  "spaceRuneLen s =
     (case s of
        [] \<Rightarrow> 0
      | c # cs \<Rightarrow>
          if asciiSpace c then 1
          else if take 2 s \<in> set spaceRunes2 then 2
          else if take 3 s \<in> set spaceRunes3 then 3
          else 0)"

function onlySpace :: "string \<Rightarrow> bool" where
  "onlySpace s =
     (if s = [] then True
      else if spaceRuneLen s = 0 then False
      else onlySpace (drop (spaceRuneLen s) s))"
  by pat_completeness auto
termination
  by (relation "measure length") auto

declare onlySpace.simps [simp del]

definition str_IsEmpty :: "string \<Rightarrow> bool" where
  "str_IsEmpty s = (if s = [] then True else onlySpace s)"

section \<open>Data model\<close>

text \<open>The structs \<open>Connection\<close> and \<open>AppOptions\<close> of the options file.\<close>

record Connection =
  Database :: string
  ExtraParams :: string
  Host :: string
  User :: string
  Password :: string

record AppOptions =
  Connection :: Connection
  BatchSeparator :: string
  DumpsDir :: string
  MigrationsDir :: string
  SprocsDir :: string
  TablePrefix :: string
  Vendor :: string
  UnparsedArgs :: "string list"

text \<open>
  Modelled from the spec: the struct \<open>AppContext\<close> is declared in another file of
  the repository, outside \<open>utils.go\<close> and the options file. The functions modelled
  here read only its field \<open>Options\<close>.
\<close>

record AppContext =
  Options :: AppOptions

text \<open>
  Modelled from the spec: the struct \<open>Migration\<close> is declared in another file of
  the repository, outside \<open>utils.go\<close> and the options file. Section 3 of the spec
  and the code's own uses give it a \<open>Name\<close> and the three script bodies; a Go string
  field that was never assigned holds the empty string.
\<close>

record Migration =
  Name :: string
  UpScript :: string
  DownScript :: string
  NoTransactionScript :: string

section \<open>Options\<close>

text \<open>
  The configuration object comes from the library \<open>configpipe\<close>: a value looked up
  by key is a string or an array of strings. \<open>MustString\<close> panics on a missing key
  (\<open>None\<close> in the model), \<open>AsString\<close> gives the empty string for it, \<open>OrString\<close> the
  default, and \<open>StringArray\<close> an error. \<open>filepath.Join\<close> is taken as a parameter.
\<close>

datatype conf_value = ConfString string | ConfArray "string list"

type_synonym Configuration = "string \<Rightarrow> conf_value option"

definition MustString :: "Configuration \<Rightarrow> string \<Rightarrow> string option" where
  "MustString config key = (case config key of Some (ConfString v) \<Rightarrow> Some v | _ \<Rightarrow> None)"

definition AsString :: "Configuration \<Rightarrow> string \<Rightarrow> string" where
  "AsString config key = (case config key of Some (ConfString v) \<Rightarrow> v | _ \<Rightarrow> [])"

definition OrString :: "Configuration \<Rightarrow> string \<Rightarrow> string \<Rightarrow> string" where
  "OrString config key dflt = (case config key of Some (ConfString v) \<Rightarrow> v | _ \<Rightarrow> dflt)"

definition StringArray :: "Configuration \<Rightarrow> string \<Rightarrow> string list option" where
  "StringArray config key = (case config key of Some (ConfArray vs) \<Rightarrow> Some vs | _ \<Rightarrow> None)"

definition parseOptions :: "(string list \<Rightarrow> string) \<Rightarrow> Configuration \<Rightarrow> AppOptions option" where
  "parseOptions join config =
     (case MustString config ''connection.database'' of
        None \<Rightarrow> None
      | Some database \<Rightarrow>
     (case MustString config ''connection.user'' of
        None \<Rightarrow> None
      | Some user \<Rightarrow>
          let options =
                \<lparr> Connection =
                    \<lparr> Database = database,
                      ExtraParams = AsString config ''connection.extraParams'',
                      Host = OrString config ''connection.host'' ''localhost'',
                      User = user,
                      Password = AsString config ''connection.password'' \<rparr>,
                  BatchSeparator = OrString config ''batchSeparator'' ''GO'',
                  DumpsDir = AsString config ''dumpsDir'',
                  MigrationsDir = OrString config ''dir'' ''migrations'',
                  SprocsDir = AsString config ''sprocsDir'',
                  TablePrefix = OrString config ''tablePrefix'' ''dat'',
                  Vendor = OrString config ''vendor'' ''postgres'',
                  UnparsedArgs = [] \<rparr>;
              options1 =
                (if DumpsDir options = []
                 then options\<lparr>DumpsDir := join [MigrationsDir options, ''_dumps'']\<rparr>
                 else options);
              options2 =
                (if SprocsDir options1 = []
                 then options1\<lparr>SprocsDir := join [MigrationsDir options1, ''sprocs'']\<rparr>
                 else options1)
          in Some (case StringArray config ''_unparsed'' of
                     Some unparsed \<Rightarrow> options2\<lparr>UnparsedArgs := unparsed\<rparr>
                   | None \<Rightarrow> options2)))"

section \<open>Reconciliation: \<open>verifyMigrationsHistory\<close>\<close>

text \<open>
  \<open>migrationFindIndexOf\<close> returns the index of the first migration with the given
  name, or \<open>-1\<close>. The loop variable \<open>i\<close> of the \<open>range\<close> loop is the third argument
  of \<open>migrationFindIndexOf_loop\<close>.
\<close>

fun migrationFindIndexOf_loop :: "Migration list \<Rightarrow> string \<Rightarrow> int \<Rightarrow> int" where
  "migrationFindIndexOf_loop [] name i = -1"
| "migrationFindIndexOf_loop (migration # rest) name i =
     (if Name migration = name then i else migrationFindIndexOf_loop rest name (i + 1))"

definition migrationFindIndexOf :: "Migration list \<Rightarrow> string \<Rightarrow> int" where
  "migrationFindIndexOf migrations name =
     (if length migrations > 0 then migrationFindIndexOf_loop migrations name 0 else -1)"

text \<open>
  \<open>logger.Info(format, args...)\<close> writes the formatted line to the log; the model
  collects the lines written, in order. The three messages of
  \<open>verifyMigrationsHistory\<close>, with \<open>%s\<close> filled in:
\<close>

definition msgNotLocal :: "string \<Rightarrow> string" where
  "msgNotLocal name =
     ''Migration '' @ name @
     '' was migrated in database but does not exist in local migrations.'' @ [LF]"

definition msgYounger :: "string \<Rightarrow> string \<Rightarrow> string" where
  "msgYounger localName lastName =
     ''Migration '' @ localName @
     '' will not be migrated. Its timestamp is younger than last migration '' @ lastName @ [LF]"

definition msgOutOfSync :: "AppContext \<Rightarrow> string" where
  "msgOutOfSync ctx =
     ''Local migrations are out of sync with '' @ Database (Connection (Options ctx)) @
     '' database, rename as needed''"

text \<open>The two loops, each over the pair of \<open>inError\<close> and the log written so far.\<close>

fun verify_dbLoop :: "Migration list \<Rightarrow> Migration list \<Rightarrow> bool \<times> string list \<Rightarrow> bool \<times> string list" where
  "verify_dbLoop localMigrations [] st = st"
| "verify_dbLoop localMigrations (migration # rest) (inError, lg) =
     (let idx = migrationFindIndexOf localMigrations (Name migration) in
      if idx = -1
      then verify_dbLoop localMigrations rest (True, lg @ [msgNotLocal (Name migration)])
      else verify_dbLoop localMigrations rest (inError, lg))"

fun verify_localLoop :: "Migration list \<Rightarrow> Migration \<Rightarrow> Migration list \<Rightarrow> bool \<times> string list \<Rightarrow> bool \<times> string list" where
  "verify_localLoop dbMigrations lastMigration [] st = st"
| "verify_localLoop dbMigrations lastMigration (localMigration # rest) (inError, lg) =
     (let localName = Name localMigration in
      if localName < Name lastMigration
      then
        (let idx = migrationFindIndexOf dbMigrations localName in
         if idx = -1
         then verify_localLoop dbMigrations lastMigration rest
                (True, lg @ [msgYounger localName (Name lastMigration)])
         else verify_localLoop dbMigrations lastMigration rest (inError, lg))
      else verify_localLoop dbMigrations lastMigration rest (inError, lg))"

text \<open>
  The result is the returned error (its message, \<open>None\<close> for \<open>nil\<close>) and the lines
  logged. \<open>dbMigrations[len(dbMigrations)-1]\<close> is read only when the slice is not
  empty.
\<close>

definition verifyMigrationsHistory ::
  "AppContext \<Rightarrow> Migration list \<Rightarrow> Migration list \<Rightarrow> string option \<times> string list" where
  "verifyMigrationsHistory ctx localMigrations dbMigrations =
     (if length dbMigrations = 0 then (None, [])
      else
        let st1 = verify_dbLoop localMigrations dbMigrations (False, []);
            lastMigration = dbMigrations ! (length dbMigrations - 1);
            st2 = verify_localLoop dbMigrations lastMigration localMigrations st1
        in (if fst st2 then Some (msgOutOfSync ctx) else None, snd st2))"

section \<open>The database and its two handles\<close>

text \<open>
  Modelled from the spec: the package \<open>sqlx-runner\<close> of the repository (the interface
  \<open>runner.Connection\<close> with \<open>SQL(...).Exec()\<close> and \<open>Begin()\<close>, and the transaction
  with \<open>SQL(...).Exec()\<close>, \<open>Commit()\<close> and \<open>AutoRollback()\<close>) lies outside \<open>utils.go\<close>
  and the options file. Section 6 of the spec gives the collaborator: \<open>execute(statement)\<close>,
  \<open>begin()\<close> returning a transaction object, and on that object \<open>commit()\<close> and a
  rollback that is a no-op after a successful commit; sections 4.3 and 4.4 say that
  the transaction scope of a statement is the handle it is issued on (the notx script
  runs on the connection and is durable at once, the ledger row is inserted on the
  transaction). This is also how Go's \<open>database/sql\<close> behaves, on which the package
  is built: a statement issued on the connection is committed by itself, a statement
  issued on the transaction object belongs to that transaction.

  The model of the database records the statements whose effect is durable, the
  committed rows of the ledger table \<open>dat__migrations\<close>, the open transaction (the
  statements and ledger rows pending in it) and the sequence of requests sent.
\<close>

datatype handle = Conn | Tx

datatype event =
    EvExec handle string
  | EvBegin
  | EvInsert string
  | EvCommit
  | EvCommitFailed
  | EvRollback

record world =
  durable :: "string list"
  ledger :: "Migration list"
  txn :: "(string list \<times> Migration list) option"
  trace :: "event list"

text \<open>
  What the database answers is not decided by the program: whether a statement, a
  \<open>Begin\<close>, the ledger insert or a \<open>Commit\<close> fails (and with which message) is given
  by a \<open>driver\<close>, which may look at the state of the database.
\<close>

record driver =
  exec_error :: "world \<Rightarrow> handle \<Rightarrow> string \<Rightarrow> string option"
  begin_error :: "world \<Rightarrow> string option"
  insert_error :: "world \<Rightarrow> Migration \<Rightarrow> string option"
  commit_error :: "world \<Rightarrow> string option"

text \<open>
  Modelled from the spec: \<open>conn.SQL(statement).Exec()\<close> of the missing package. The
  request is recorded; a statement that succeeds on the connection is durable at
  once, one that succeeds on the transaction is pending in it. A statement sent on a
  transaction that is not open fails.
\<close>

definition SQL_Exec :: "driver \<Rightarrow> handle \<Rightarrow> string \<Rightarrow> world \<Rightarrow> string option \<times> world" where
  "SQL_Exec d h statement w =
     (let w1 = w\<lparr>trace := trace w @ [EvExec h statement]\<rparr> in
      case h of
        Conn \<Rightarrow>
          (case exec_error d w Conn statement of
             Some err \<Rightarrow> (Some err, w1)
           | None \<Rightarrow> (None, w1\<lparr>durable := durable w @ [statement]\<rparr>))
      | Tx \<Rightarrow>
          (case txn w of
             None \<Rightarrow> (Some ''transaction is not open'', w1)
           | Some (stmts, rows) \<Rightarrow>
               (case exec_error d w Tx statement of
                  Some err \<Rightarrow> (Some err, w1)
                | None \<Rightarrow> (None, w1\<lparr>txn := Some (stmts @ [statement], rows)\<rparr>))))"

text \<open>
  Modelled from the spec: \<open>conn.Begin()\<close> of the missing package. One runner works
  on the database at a time (section 5 of the spec), so the model holds one open
  transaction; a \<open>Begin\<close> while one is open fails.
\<close>

definition conn_Begin :: "driver \<Rightarrow> world \<Rightarrow> string option \<times> world" where
  "conn_Begin d w =
     (case txn w of
        Some t \<Rightarrow> (Some ''a transaction is already open'', w)
      | None \<Rightarrow>
          (case begin_error d w of
             Some err \<Rightarrow> (Some err, w)
           | None \<Rightarrow> (None, w\<lparr>txn := Some ([], []), trace := trace w @ [EvBegin]\<rparr>)))"

text \<open>
  Modelled from the spec: the insert of the ledger row, \<open>tx.SQL(q, ...).Exec()\<close> with
  \<open>q\<close> the \<open>insert into dat__migrations\<close> statement of \<open>runUpScripts\<close>. The row is
  pending in the transaction.
\<close>

definition tx_Insert :: "driver \<Rightarrow> Migration \<Rightarrow> world \<Rightarrow> string option \<times> world" where
  "tx_Insert d row w =
     (let w1 = w\<lparr>trace := trace w @ [EvInsert (Name row)]\<rparr> in
      case txn w of
        None \<Rightarrow> (Some ''transaction is not open'', w1)
      | Some (stmts, rows) \<Rightarrow>
          (case insert_error d w row of
             Some err \<Rightarrow> (Some err, w1)
           | None \<Rightarrow> (None, w1\<lparr>txn := Some (stmts, rows @ [row])\<rparr>)))"

text \<open>
  Modelled from the spec: \<open>tx.Commit()\<close> of the missing package. A successful commit
  makes the pending statements and rows durable and closes the transaction; a failed
  one leaves it open.
\<close>

definition tx_Commit :: "driver \<Rightarrow> world \<Rightarrow> string option \<times> world" where
  "tx_Commit d w =
     (case txn w of
        None \<Rightarrow> (Some ''transaction is not open'', w)
      | Some (stmts, rows) \<Rightarrow>
          (case commit_error d w of
             Some err \<Rightarrow> (Some err, w\<lparr>trace := trace w @ [EvCommitFailed]\<rparr>)
           | None \<Rightarrow>
               (None, w\<lparr>durable := durable w @ stmts, ledger := ledger w @ rows,
                         txn := None, trace := trace w @ [EvCommit]\<rparr>)))"

text \<open>
  Modelled from the spec: \<open>tx.AutoRollback()\<close> of the missing package, a no-op after
  a successful commit and otherwise a rollback: what is pending is dropped.
\<close>

definition tx_AutoRollback :: "world \<Rightarrow> world" where
  "tx_AutoRollback w =
     (case txn w of
        None \<Rightarrow> w
      | Some t \<Rightarrow> w\<lparr>txn := None, trace := trace w @ [EvRollback]\<rparr>)"

section \<open>Script execution: \<open>execScript\<close>, \<open>execFile\<close>, \<open>runUpScripts\<close>\<close>

datatype error = PathError string | DBError string

text \<open>
  The loop of \<open>execScript\<close> over the statements, with its three exits: \<open>continue\<close> on
  the empty statement, \<open>return nil\<close> on a statement that \<open>str.IsEmpty\<close> accepts, and
  \<open>return err\<close> on an error whose message does not contain \<open>no RowsAffected\<close>. The
  calls of the logger are left out: no property below is about the log of a script.
\<close>

fun execScript_loop :: "driver \<Rightarrow> handle \<Rightarrow> string list \<Rightarrow> world \<Rightarrow> error option \<times> world" where
  "execScript_loop d conn [] w = (None, w)"
| "execScript_loop d conn (statement # rest) w =
     (if statement = [] then execScript_loop d conn rest w
      else if str_IsEmpty statement then (None, w)
      else
        (case SQL_Exec d conn statement w of
           (None, w1) \<Rightarrow> execScript_loop d conn rest w1
         | (Some err, w1) \<Rightarrow>
             if strings_Contains err ''no RowsAffected''
             then execScript_loop d conn rest w1
             else (Some (DBError err), w1)))"

definition execScript :: "driver \<Rightarrow> handle \<Rightarrow> string \<Rightarrow> world \<Rightarrow> error option \<times> world" where
  "execScript d conn script w =
     (let statements = Split script in
      if length statements = 0 then (None, w)
      else execScript_loop d conn statements w)"

text \<open>
  The file system as the program sees it: \<open>os.Stat\<close> succeeds on a file that is there,
  \<open>ioutil.ReadFile\<close> on one that can also be read. \<open>filepath.Join\<close> is a field of the
  environment.
\<close>

datatype file_state = Missing | Unreadable | Readable string

record os_env =
  filepath_Join :: "string list \<Rightarrow> string"
  file_at :: "string \<Rightarrow> file_state"

definition os_Stat_ok :: "os_env \<Rightarrow> string \<Rightarrow> bool" where
  "os_Stat_ok os filename = (file_at os filename \<noteq> Missing)"

definition readFileText :: "os_env \<Rightarrow> string \<Rightarrow> error + string" where
  "readFileText os filename =
     (case file_at os filename of
        Readable body \<Rightarrow> Inr body
      | _ \<Rightarrow> Inl (PathError filename))"

definition scriptFilename :: "os_env \<Rightarrow> AppOptions \<Rightarrow> Migration \<Rightarrow> string \<Rightarrow> string" where
  "scriptFilename os options migration subFile =
     filepath_Join os [MigrationsDir options, Name migration, subFile]"

definition execFile :: "driver \<Rightarrow> os_env \<Rightarrow> handle \<Rightarrow> string \<Rightarrow> world \<Rightarrow> (error + string) \<times> world" where
  "execFile d os conn filename w =
     (case readFileText os filename of
        Inl err \<Rightarrow> (Inl err, w)
      | Inr script \<Rightarrow>
          (case execScript d conn script w of
             (Some err, w1) \<Rightarrow> (Inl err, w1)
           | (None, w1) \<Rightarrow> (Inr script, w1)))"

text \<open>
  \<open>runUpScripts\<close>, in the order of the source. The parameter \<open>conn\<close> of the source is
  the connection handle \<open>Conn\<close>; \<open>tx\<close> is the handle \<open>Tx\<close> of the transaction that
  \<open>conn.Begin()\<close> opened. The migration is updated in place in the source, so the
  model returns it with the error and the state of the database.

  Lines 318 to 329, the optional \<open>notx.sql\<close>:
\<close>

definition runUpScripts_notx ::
  "driver \<Rightarrow> os_env \<Rightarrow> AppContext \<Rightarrow> Migration \<Rightarrow> world \<Rightarrow> error option \<times> Migration \<times> world" where
  "runUpScripts_notx d os ctx migration w =
     (let noTxFilename = scriptFilename os (Options ctx) migration ''notx.sql'' in
      if os_Stat_ok os noTxFilename then
        (case execFile d os Conn noTxFilename w of
           (Inl err, w1) \<Rightarrow> (Some err, migration, w1)
         | (Inr script, w1) \<Rightarrow> (None, migration\<lparr>NoTransactionScript := script\<rparr>, w1))
      else (None, migration, w))"

text \<open>Lines 331 to 339, the optional \<open>down.sql\<close>, read and not executed:\<close>

definition runUpScripts_down ::
  "os_env \<Rightarrow> AppContext \<Rightarrow> Migration \<Rightarrow> error option \<times> Migration" where
  "runUpScripts_down os ctx migration =
     (let downFilename = scriptFilename os (Options ctx) migration ''down.sql'' in
      if os_Stat_ok os downFilename then
        (case readFileText os downFilename of
           Inl err \<Rightarrow> (Some err, migration)
         | Inr downScript \<Rightarrow> (None, migration\<lparr>DownScript := downScript\<rparr>))
      else (None, migration))"

text \<open>
  Lines 347 to 370, from after \<open>defer tx.AutoRollback()\<close> to the last \<open>return\<close>:
  \<open>up.sql\<close> is executed by \<open>execFile(ctx, conn, ...)\<close>, on the handle \<open>conn\<close>; the ledger
  row is inserted by \<open>tx.SQL(...)\<close>, on the handle \<open>tx\<close>; the result of \<open>tx.Commit()\<close>
  is dropped and \<open>nil\<close> is returned.
\<close>

definition runUpScripts_body ::
  "driver \<Rightarrow> os_env \<Rightarrow> AppContext \<Rightarrow> Migration \<Rightarrow> world \<Rightarrow> error option \<times> Migration \<times> world" where
  "runUpScripts_body d os ctx migration w =
     (case execFile d os Conn (scriptFilename os (Options ctx) migration ''up.sql'') w of
        (Inl err, w1) \<Rightarrow> (Some err, migration, w1)
      | (Inr upScript, w1) \<Rightarrow>
          (let migration1 = migration\<lparr>UpScript := upScript\<rparr> in
           case tx_Insert d migration1 w1 of
             (Some err, w2) \<Rightarrow> (Some (DBError err), migration1, w2)
           | (None, w2) \<Rightarrow> (None, migration1, snd (tx_Commit d w2))))"

text \<open>
  Lines 341 to 345 and the deferred call: \<open>Begin\<close>, then the body, then
  \<open>tx.AutoRollback()\<close> on every way out of the body.
\<close>

definition runUpScripts_tx ::
  "driver \<Rightarrow> os_env \<Rightarrow> AppContext \<Rightarrow> Migration \<Rightarrow> world \<Rightarrow> error option \<times> Migration \<times> world" where
  "runUpScripts_tx d os ctx migration w =
     (case conn_Begin d w of
        (Some err, w1) \<Rightarrow> (Some (DBError err), migration, w1)
      | (None, w1) \<Rightarrow>
          (case runUpScripts_body d os ctx migration w1 of
             (r, migration1, w2) \<Rightarrow> (r, migration1, tx_AutoRollback w2)))"

definition runUpScripts ::
  "driver \<Rightarrow> os_env \<Rightarrow> AppContext \<Rightarrow> Migration \<Rightarrow> world \<Rightarrow> error option \<times> Migration \<times> world" where
  "runUpScripts d os ctx migration w =
     (case runUpScripts_notx d os ctx migration w of
        (Some err, migration1, w1) \<Rightarrow> (Some err, migration1, w1)
      | (None, migration1, w1) \<Rightarrow>
          (case runUpScripts_down os ctx migration1 of
             (Some err, migration2) \<Rightarrow> (Some err, migration2, w1)
           | (None, migration2) \<Rightarrow> runUpScripts_tx d os ctx migration2 w1))"

section \<open>Error location: \<open>extractLineColumn\<close>\<close>

text \<open>
  \<open>strconv.Atoi\<close> of the Go standard library, for the 64-bit \<open>int\<close>: an optional sign,
  then decimal digits read from the left; a byte that is no digit is a syntax error
  and a value that leaves the range is a range error, whichever comes first.
\<close>

datatype NumError = ErrSyntax | ErrRange

definition intSize :: nat where
  "intSize = 64"

definition isDigit :: "char \<Rightarrow> bool" where
  "isDigit c = (CHR ''0'' \<le> c \<and> c \<le> CHR ''9'')"

definition digitVal :: "char \<Rightarrow> int" where
  "digitVal c = of_char c - of_char CHR ''0''"

fun ParseUint_loop :: "int \<Rightarrow> string \<Rightarrow> NumError + int" where
  "ParseUint_loop n [] = Inr n"
| "ParseUint_loop n (c # cs) =
     (if \<not> isDigit c then Inl ErrSyntax
      else if 2 ^ 64 \<le> n * 10 + digitVal c then Inl ErrRange
      else ParseUint_loop (n * 10 + digitVal c) cs)"

definition ParseUint :: "string \<Rightarrow> NumError + int" where
  "ParseUint s = (if s = [] then Inl ErrSyntax else ParseUint_loop 0 s)"

definition Atoi :: "string \<Rightarrow> NumError + int" where
  "Atoi s =
     (if s = [] then Inl ErrSyntax
      else
        let neg = (hd s = CHR ''-'');
            digits = (if hd s = CHR ''+'' \<or> hd s = CHR ''-'' then tl s else s)
        in case ParseUint digits of
             Inl ErrSyntax \<Rightarrow> Inl ErrSyntax
           | Inl ErrRange \<Rightarrow> Inl ErrRange
           | Inr un \<Rightarrow>
               if \<not> neg \<and> 2 ^ (intSize - 1) \<le> un then Inl ErrRange
               else if neg \<and> 2 ^ (intSize - 1) < un then Inl ErrRange
               else Inr (if neg then - un else un))"

text \<open>
  Go's \<open>int\<close> wraps around on overflow: \<open>position++\<close> at the largest \<open>int\<close> gives the
  smallest one. The other counters stay below the length of the script.
\<close>

definition wrapInt :: "int \<Rightarrow> int" where
  "wrapInt x = (x + 2 ^ (intSize - 1)) mod 2 ^ intSize - 2 ^ (intSize - 1)"

function extractLineColumn_loop :: "string \<Rightarrow> int \<Rightarrow> nat \<Rightarrow> int \<Rightarrow> int \<Rightarrow> int \<times> int" where
  "extractLineColumn_loop script position i line column =
     (if i < length script \<and> int i < position then
        (if script ! i = CR then
           (let i1 = (if i + 1 < length script \<and> script ! (i + 1) = LF then i + 1 else i) in
            if int i1 < int (length script) - 1
            then extractLineColumn_loop script position (i1 + 1) (line + 1) 0
            else extractLineColumn_loop script position (i1 + 1) line column)
         else if script ! i = LF then
           (if int i < int (length script) - 1
            then extractLineColumn_loop script position (i + 1) (line + 1) 0
            else extractLineColumn_loop script position (i + 1) line column)
         else extractLineColumn_loop script position (i + 1) line (column + 1))
      else (line, column))"
  by pat_completeness auto
termination
  by (relation "measure (\<lambda>(script, position, i, line, column). length script - i)") auto

declare extractLineColumn_loop.simps [simp del]

definition extractLineColumn :: "string \<Rightarrow> string \<Rightarrow> int \<times> int \<times> NumError option" where
  "extractLineColumn script pos =
     (case Atoi pos of
        Inl err \<Rightarrow> (0, 0, Some err)
      | Inr position0 \<Rightarrow>
          (let position = wrapInt (position0 + 1) in
           case extractLineColumn_loop script position 0 1 0 of
             (line, column) \<Rightarrow> (line, column, None)))"

text \<open>
  The locator as section 4.5 of the spec words it, for comparison with the code: the
  offset plus one is the target; the scan walks the script from the start with a
  running index, \<open>line\<close> from 1 and \<open>column\<close> from 0; a carriage return (together
  with a line feed right after it) and a bare line feed are one line break, which
  increments \<open>line\<close> and resets \<open>column\<close> unless it ends the script; every other
  character increments \<open>column\<close>; the scan stops when the running index has reached
  the target or the script ends.
\<close>

fun locate_scan :: "int \<Rightarrow> int \<Rightarrow> string \<Rightarrow> int \<times> int \<Rightarrow> int \<times> int" where
  "locate_scan target idx [] (line, column) = (line, column)"
| "locate_scan target idx (c # rest) (line, column) =
     (if target \<le> idx then (line, column)
      else if c = CR then
        (case rest of
           [] \<Rightarrow> locate_scan target (idx + 1) [] (line, column)
         | c' # rest' \<Rightarrow>
             if c' = LF
             then locate_scan target (idx + 2) rest'
                    (if rest' = [] then (line, column) else (line + 1, 0))
             else locate_scan target (idx + 1) rest (line + 1, 0))
      else if c = LF then
        locate_scan target (idx + 1) rest (if rest = [] then (line, column) else (line + 1, 0))
      else locate_scan target (idx + 1) rest (line, column + 1))"

definition locate_spec :: "string \<Rightarrow> int \<Rightarrow> int \<times> int" where
  "locate_spec script offset = locate_scan (offset + 1) 0 script (1, 0)"

section \<open>Inputs of the examples\<close>

text \<open>
  The concrete inputs on which the theorems below are evaluated: a configuration with
  the two required keys and an optional \<open>batchSeparator\<close>, the options it parses
  to, a migration as \<open>getPartialLocalMigrations\<close> builds it (\<open>&Migration{Name: dir}\<close>),
  a file system given by its readable files, a database driver that fails the listed
  statements and, if asked, the commit, a database on which nothing has run, and the
  migration \<open>202001010000-init\<close> with the files of its directory.
  \<open>events_since w w'\<close> are the requests sent between two states of the database.
\<close>

definition example_join :: "string list \<Rightarrow> string" where
  "example_join elems = foldr (\<lambda>x acc. if acc = [] then x else x @ ''/'' @ acc) elems []"

definition example_config :: "string option \<Rightarrow> Configuration" where
  "example_config separator =
     (\<lambda>key. if key = ''connection.database'' then Some (ConfString ''appdb'')
            else if key = ''connection.user'' then Some (ConfString ''app'')
            else if key = ''batchSeparator'' then map_option ConfString separator
            else None)"

definition example_options :: "string \<Rightarrow> AppOptions" where
  "example_options separator =
     \<lparr> Connection =
         \<lparr> Database = ''appdb'', ExtraParams = [], Host = ''localhost'', User = ''app'',
           Password = [] \<rparr>,
       BatchSeparator = separator,
       DumpsDir = ''migrations/_dumps'',
       MigrationsDir = ''migrations'',
       SprocsDir = ''migrations/sprocs'',
       TablePrefix = ''dat'',
       Vendor = ''postgres'',
       UnparsedArgs = [] \<rparr>"

definition example_ctx :: "string \<Rightarrow> AppContext" where
  "example_ctx separator = \<lparr> Options = example_options separator \<rparr>"

definition partialMigration :: "string \<Rightarrow> Migration" where
  "partialMigration dir = \<lparr> Name = dir, UpScript = [], DownScript = [], NoTransactionScript = [] \<rparr>"

definition example_os :: "(string \<times> string) list \<Rightarrow> os_env" where
  "example_os files =
     \<lparr> filepath_Join = example_join,
       file_at = (\<lambda>filename. case map_of files filename of
                                None \<Rightarrow> Missing
                              | Some body \<Rightarrow> Readable body) \<rparr>"

definition example_driver :: "string list \<Rightarrow> bool \<Rightarrow> driver" where
  "example_driver failing commitFails =
     \<lparr> exec_error = (\<lambda>w h statement. if statement \<in> set failing then Some ''syntax error'' else None),
       begin_error = (\<lambda>w. None),
       insert_error = (\<lambda>w row. None),
       commit_error = (\<lambda>w. if commitFails then Some ''commit failed'' else None) \<rparr>"

definition emptyWorld :: world where
  "emptyWorld = \<lparr> durable = [], ledger = [], txn = None, trace = [] \<rparr>"

definition initMigration :: Migration where
  "initMigration = partialMigration ''202001010000-init''"

definition initFiles :: "string option \<Rightarrow> string \<Rightarrow> os_env" where
  "initFiles notx up =
     example_os
       ((case notx of
           None \<Rightarrow> []
         | Some body \<Rightarrow> [(''migrations/202001010000-init/notx.sql'', body)])
        @ [(''migrations/202001010000-init/up.sql'', up)])"

definition events_since :: "world \<Rightarrow> world \<Rightarrow> event list" where
  "events_since w w' = drop (length (trace w)) (trace w')"

section \<open>Properties of the batch splitter\<close>

lemma FindAllStringIndex_from_no_match:
  "\<not> hasSeparatorMatch s \<Longrightarrow> FindAllStringIndex_from s pos = []"
proof (induction s pos rule: FindAllStringIndex_from.induct)
  case (1 s pos)
  show ?case
  proof (cases "length s \<le> pos")
    case True
    then show ?thesis by (subst FindAllStringIndex_from.simps) simp
  next
    case False
    with "1.prems" have "\<not> separatorAt s pos"
      by (auto simp: hasSeparatorMatch_def)
    with False "1.IH"(2) "1.prems" show ?thesis
      by (subst FindAllStringIndex_from.simps) simp
  qed
qed

lemma Split_no_match: "\<not> hasSeparatorMatch s \<Longrightarrow> Split s = [s]"
  by (cases "s = []") (simp_all add: Split_def FindAllStringIndex_def FindAllStringIndex_from_no_match)

lemma Split_example:
  "Split [CHR ''A'', CHR '';'', LF, CHR ''G'', CHR ''O'', LF, CHR ''B'', CHR '';'', LF]
     = [[CHR ''A'', CHR '';'', LF], [CHR ''B'', CHR '';'', LF]]"
  by code_simp

text \<open>
  C7. Splitting the script \<open>A;\<close> LF \<open>GO\<close> LF \<open>B;\<close> LF yields exactly the two segments
  \<open>A;\<close> LF and \<open>B;\<close> LF, in that order; and every script in which the separator
  expression matches nowhere is returned unchanged as the only segment.
\<close>

theorem C7_split_example_and_no_match:
  "Split (''A;'' @ [LF] @ ''GO'' @ [LF] @ ''B;'' @ [LF]) = [''A;'' @ [LF], ''B;'' @ [LF]]
   \<and> (\<forall>script. \<not> hasSeparatorMatch script \<longrightarrow> Split script = [script])"
  using Split_example Split_no_match by simp

theorem C7_witness:
  "\<not> hasSeparatorMatch (''A;'' @ [LF]) \<and> Split (''A;'' @ [LF]) = [''A;'' @ [LF]]"
proof -
  have h: "\<not> hasSeparatorMatch (''A;'' @ [LF])"
    by (auto simp: hasSeparatorMatch_def separatorAt_def lineStart_def less_Suc_eq numeral_3_eq_3)
  from C7_split_example_and_no_match have "Split (''A;'' @ [LF]) = [''A;'' @ [LF]]"
    using h by blast
  with h show ?thesis by simp
qed

section \<open>Properties of the reconciliation\<close>

lemma migrationFindIndexOf_loop_absent:
  "0 \<le> i \<Longrightarrow> (migrationFindIndexOf_loop ms n i = -1) = (n \<notin> Name ` set ms)"
  by (induction ms arbitrary: i) auto

lemma migrationFindIndexOf_absent:
  "(migrationFindIndexOf ms n = -1) = (n \<notin> Name ` set ms)"
  by (cases ms) (simp_all add: migrationFindIndexOf_def migrationFindIndexOf_loop_absent del: migrationFindIndexOf_loop.simps)

lemma verify_dbLoop_fst:
  "fst (verify_dbLoop loc dbs (e, lg)) = (e \<or> (\<exists>m \<in> set dbs. Name m \<notin> Name ` set loc))"
  by (induction dbs arbitrary: e lg) (auto simp: migrationFindIndexOf_absent Let_def)

lemma verify_dbLoop_snd:
  "snd (verify_dbLoop loc dbs (e, lg)) =
     lg @ map (\<lambda>m. msgNotLocal (Name m)) (filter (\<lambda>m. Name m \<notin> Name ` set loc) dbs)"
  by (induction dbs arbitrary: e lg) (auto simp: migrationFindIndexOf_absent Let_def)

lemma verify_localLoop_fst:
  "fst (verify_localLoop dbs lastm loc (e, lg)) =
     (e \<or> (\<exists>m \<in> set loc. Name m < Name lastm \<and> Name m \<notin> Name ` set dbs))"
  by (induction loc arbitrary: e lg) (auto simp: migrationFindIndexOf_absent Let_def)

lemma verify_localLoop_snd:
  "snd (verify_localLoop dbs lastm loc (e, lg)) =
     lg @ map (\<lambda>m. msgYounger (Name m) (Name lastm))
            (filter (\<lambda>m. Name m < Name lastm \<and> Name m \<notin> Name ` set dbs) loc)"
  by (induction loc arbitrary: e lg) (auto simp: migrationFindIndexOf_absent Let_def)

lemma verifyMigrationsHistory_fst:
  "dbs \<noteq> [] \<Longrightarrow>
   fst (verifyMigrationsHistory ctx loc dbs) =
     (if (\<exists>m \<in> set dbs. Name m \<notin> Name ` set loc)
         \<or> (\<exists>m \<in> set loc. Name m < Name (last dbs) \<and> Name m \<notin> Name ` set dbs)
      then Some (msgOutOfSync ctx) else None)"
  unfolding verifyMigrationsHistory_def Let_def
  by (cases "verify_dbLoop loc dbs (False, [])")
     (use verify_dbLoop_fst[of loc dbs False "[]"] in
      \<open>simp add: verify_localLoop_fst last_conv_nth\<close>)

lemma verifyMigrationsHistory_snd:
  "dbs \<noteq> [] \<Longrightarrow>
   snd (verifyMigrationsHistory ctx loc dbs) =
     map (\<lambda>m. msgNotLocal (Name m)) (filter (\<lambda>m. Name m \<notin> Name ` set loc) dbs) @
     map (\<lambda>m. msgYounger (Name m) (Name (last dbs)))
         (filter (\<lambda>m. Name m < Name (last dbs) \<and> Name m \<notin> Name ` set dbs) loc)"
  unfolding verifyMigrationsHistory_def Let_def
  by (cases "verify_dbLoop loc dbs (False, [])")
     (use verify_dbLoop_snd[of loc dbs False "[]"] in
      \<open>simp add: verify_localLoop_snd last_conv_nth\<close>)

text \<open>
  C5, as the claim states it, fails: the error that \<open>verifyMigrationsHistory\<close> returns
  is the fixed sentence with the name of the database, and names no migration. With
  no local migration and the ledger entry \<open>202001010000-init\<close>, the error does not
  contain that name.
\<close>

theorem C5_counterexample:
  "fst (verifyMigrationsHistory (example_ctx ''GO'') [] [partialMigration ''202001010000-init''])
     = Some ''Local migrations are out of sync with appdb database, rename as needed''
   \<and> \<not> strings_Contains ''Local migrations are out of sync with appdb database, rename as needed''
          ''202001010000-init''"
  by code_simp

text \<open>
  C5, amended. For all lists of local and ledger migrations (sorted or not), if the
  ledger has an entry whose \<open>Name\<close> is absent from the local list, then
  \<open>verifyMigrationsHistory\<close> returns the error
  \<open>Local migrations are out of sync with <database> database, rename as needed\<close>, and
  for every such entry the line
  \<open>Migration <name> was migrated in database but does not exist in local migrations.\<close>
  has been written to the log: the offending names are enumerated in the log, not in
  the error.
\<close>

theorem C5_amended:
  assumes "m \<in> set dbMigrations" and "Name m \<notin> Name ` set localMigrations"
  shows "fst (verifyMigrationsHistory ctx localMigrations dbMigrations) = Some (msgOutOfSync ctx)
     \<and> (\<forall>m' \<in> set dbMigrations. Name m' \<notin> Name ` set localMigrations \<longrightarrow>
           msgNotLocal (Name m') \<in> set (snd (verifyMigrationsHistory ctx localMigrations dbMigrations)))"
proof -
  from assms have ne: "dbMigrations \<noteq> []" by auto
  from assms have "fst (verifyMigrationsHistory ctx localMigrations dbMigrations) = Some (msgOutOfSync ctx)"
    by (auto simp: verifyMigrationsHistory_fst[OF ne])
  moreover have "\<forall>m' \<in> set dbMigrations. Name m' \<notin> Name ` set localMigrations \<longrightarrow>
           msgNotLocal (Name m') \<in> set (snd (verifyMigrationsHistory ctx localMigrations dbMigrations))"
    by (auto simp: verifyMigrationsHistory_snd[OF ne])
  ultimately show ?thesis by simp
qed

theorem C5_witness:
  "partialMigration ''202001010000-init'' \<in> set [partialMigration ''202001010000-init'']
   \<and> Name (partialMigration ''202001010000-init'') \<notin> Name ` set []
   \<and> fst (verifyMigrationsHistory (example_ctx ''GO'') [] [partialMigration ''202001010000-init''])
       = Some (msgOutOfSync (example_ctx ''GO''))
   \<and> msgNotLocal ''202001010000-init''
       \<in> set (snd (verifyMigrationsHistory (example_ctx ''GO'') [] [partialMigration ''202001010000-init'']))"
  using C5_amended[of "partialMigration ''202001010000-init''" "[partialMigration ''202001010000-init'']" "[]" "example_ctx ''GO''"]
  by (simp add: partialMigration_def)

text \<open>
  C6. For all lists of local migrations and non-empty lists of ledger migrations
  (sorted or not), if a local entry has a \<open>Name\<close> that is lexicographically less than
  the \<open>Name\<close> of the last ledger entry and absent from the ledger, then
  \<open>verifyMigrationsHistory\<close> returns an error; and with an empty ledger it returns
  \<open>nil\<close> for every local list.
\<close>

theorem C6:
  "(dbMigrations \<noteq> [] \<and> m \<in> set localMigrations \<and> Name m < Name (last dbMigrations)
      \<and> Name m \<notin> Name ` set dbMigrations
      \<longrightarrow> fst (verifyMigrationsHistory ctx localMigrations dbMigrations) \<noteq> None)
   \<and> fst (verifyMigrationsHistory ctx localMigrations []) = None"
proof -
  have "fst (verifyMigrationsHistory ctx localMigrations []) = None"
    by (simp add: verifyMigrationsHistory_def)
  moreover have "fst (verifyMigrationsHistory ctx localMigrations dbMigrations) \<noteq> None"
    if "dbMigrations \<noteq> []" "m \<in> set localMigrations" "Name m < Name (last dbMigrations)"
       "Name m \<notin> Name ` set dbMigrations"
    using that by (auto simp: verifyMigrationsHistory_fst)
  ultimately show ?thesis by blast
qed

theorem C6_witness:
  "[partialMigration ''202002010000-add-col''] \<noteq> []
   \<and> partialMigration ''202001010000-init'' \<in> set [partialMigration ''202001010000-init'', partialMigration ''202002010000-add-col'']
   \<and> Name (partialMigration ''202001010000-init'') < Name (last [partialMigration ''202002010000-add-col''])
   \<and> Name (partialMigration ''202001010000-init'') \<notin> Name ` set [partialMigration ''202002010000-add-col'']
   \<and> fst (verifyMigrationsHistory (example_ctx ''GO'')
             [partialMigration ''202001010000-init'', partialMigration ''202002010000-add-col'']
             [partialMigration ''202002010000-add-col'']) \<noteq> None
   \<and> fst (verifyMigrationsHistory (example_ctx ''GO'')
             [partialMigration ''202001010000-init'', partialMigration ''202002010000-add-col''] []) = None"
proof -
  have lt: "Name (partialMigration ''202001010000-init'') < Name (last [partialMigration ''202002010000-add-col''])"
    by (simp add: partialMigration_def)
  have ab: "Name (partialMigration ''202001010000-init'') \<notin> Name ` set [partialMigration ''202002010000-add-col'']"
    by (simp add: partialMigration_def)
  from C6[of "[partialMigration ''202002010000-add-col'']" "partialMigration ''202001010000-init''"
            "[partialMigration ''202001010000-init'', partialMigration ''202002010000-add-col'']" "example_ctx ''GO''"]
    lt ab
  show ?thesis by simp
qed

section \<open>Properties of the error locator\<close>

lemma int_Suc_right: "int (Suc i) = int i + 1" by simp

lemma loop_eq_scan:
  "i \<le> length script \<Longrightarrow>
   extractLineColumn_loop script p i line col = locate_scan p (int i) (drop i script) (line, col)"
proof (induction script p i line col rule: extractLineColumn_loop.induct)
  case (1 script p i line col)
  show ?case
  proof (cases "i < length script")
    case False
    with "1.prems" show ?thesis
      by (subst extractLineColumn_loop.simps) simp
  next
    case inb: True
    then have dr: "drop i script = script ! i # drop (Suc i) script"
      by (simp add: Cons_nth_drop_Suc)
    show ?thesis
    proof (cases "int i < p")
      case False
      with inb dr show ?thesis
        by (subst extractLineColumn_loop.simps) simp
    next
      case lt: True
      show ?thesis
      proof (cases "Suc i < length script")
        case False
        with inb have e: "drop (Suc i) script = []" by simp
        from False inb lt "1.IH" "1.prems" show ?thesis
          apply (subst extractLineColumn_loop.simps)
          apply (subst (2) extractLineColumn_loop.simps)
          apply (simp add: dr e int_Suc_right del: of_nat_Suc)
          done
      next
        case s: True
        then have dr2: "drop (Suc i) script = script ! Suc i # drop (Suc (Suc i)) script"
          by (simp add: Cons_nth_drop_Suc)
        from s inb lt "1.IH" "1.prems" show ?thesis
          apply (subst extractLineColumn_loop.simps)
          apply (simp add: dr dr2 Let_def int_Suc_right del: of_nat_Suc)
          apply (auto simp: dr2 int_Suc_right simp del: of_nat_Suc)
          apply (simp_all add: add.commute)
          done
      qed
    qed
  qed
qed


lemma digitVal_nonneg: "isDigit c \<Longrightarrow> 0 \<le> digitVal c"
proof -
  assume "isDigit c"
  then have "(of_char CHR ''0'' :: nat) \<le> of_char c"
    by (simp add: isDigit_def less_eq_char_def)
  then have "int (of_char CHR ''0'') \<le> int (of_char c)"
    by (simp only: of_nat_le_iff)
  then show ?thesis
    by (simp only: digitVal_def of_nat_of_char)
qed

lemma ParseUint_loop_nonneg: "0 \<le> n \<Longrightarrow> ParseUint_loop n s = Inr u \<Longrightarrow> 0 \<le> u"
proof (induction s arbitrary: n)
  case Nil
  then show ?case by simp
next
  case (Cons c cs)
  from Cons.prems(2) have d: "isDigit c" and r: "ParseUint_loop (n * 10 + digitVal c) cs = Inr u"
    by (auto split: if_splits)
  from d Cons.prems(1) have "0 \<le> n * 10 + digitVal c"
    using digitVal_nonneg[of c] by simp
  with r show ?case by (rule Cons.IH[rotated])
qed

lemma Atoi_range: "Atoi pos = Inr n \<Longrightarrow> - (2 ^ (intSize - 1)) \<le> n \<and> n < 2 ^ (intSize - 1)"
proof -
  assume a: "Atoi pos = Inr n"
  then obtain ds un where u: "ParseUint ds = Inr un"
    and n: "n = (if hd pos = CHR ''-'' then - un else un)"
    and r1: "hd pos \<noteq> CHR ''-'' \<longrightarrow> un < 2 ^ (intSize - 1)"
    and r2: "hd pos = CHR ''-'' \<longrightarrow> un \<le> 2 ^ (intSize - 1)"
    by (auto simp: Atoi_def Let_def split: if_splits sum.splits NumError.splits)
  from u have "0 \<le> un"
    by (auto simp: ParseUint_def split: if_splits dest: ParseUint_loop_nonneg[rotated])
  with n r1 r2 show ?thesis
    by (auto simp: intSize_def)
qed

lemma wrapInt_id: "- (2 ^ (intSize - 1)) \<le> x \<Longrightarrow> x < 2 ^ (intSize - 1) \<Longrightarrow> wrapInt x = x"
  by (simp add: wrapInt_def intSize_def)

text \<open>
  C9, as the claim states it, fails at the largest \<open>int\<close>: the offset string
  \<open>9223372036854775807\<close> parses, \<open>position++\<close> wraps around to the smallest \<open>int\<close>, the
  loop does not run, and \<open>extractLineColumn\<close> returns line 1, column 0 for the script
  \<open>a\<close>, where scanning up to the offset plus one gives line 1, column 1.
\<close>

theorem C9_counterexample:
  "Atoi ''9223372036854775807'' = Inr 9223372036854775807
   \<and> extractLineColumn ''a'' ''9223372036854775807'' = (1, 0, None)
   \<and> locate_spec ''a'' 9223372036854775807 = (1, 1)"
  by code_simp

text \<open>
  C9, amended. For every script and every offset string that parses as an integer
  below the largest \<open>int\<close> (\<open>2^63 - 1\<close>), \<open>extractLineColumn\<close> returns, with a \<open>nil\<close>
  error, the line and column that the scan of section 4.5 of the spec computes
  (\<open>locate_spec\<close>): the target is the parsed offset plus one, \<open>line\<close> starts at 1 and
  \<open>column\<close> at 0, a character that is no line break increments \<open>column\<close>, a carriage
  return with the line feed after it is one line break, a line break increments
  \<open>line\<close> and resets \<open>column\<close> unless it is at the very end of the script, and the scan
  stops when the running index has reached the target or the script ends.
\<close>

theorem C9_amended:
  assumes "Atoi pos = Inr offset" and "offset < 2 ^ (intSize - 1) - 1"
  shows "extractLineColumn script pos =
           (fst (locate_spec script offset), snd (locate_spec script offset), None)"
proof -
  from Atoi_range[OF assms(1)] assms(2) have "wrapInt (offset + 1) = offset + 1"
    by (intro wrapInt_id) auto
  with assms(1) show ?thesis
    by (simp add: extractLineColumn_def locate_spec_def loop_eq_scan split: prod.split)
qed

theorem C9_witness:
  "Atoi ''4'' = Inr 4 \<and> (4::int) < 2 ^ (intSize - 1) - 1
   \<and> extractLineColumn (''ab'' @ [CR, LF] @ ''cd'' @ [LF]) ''4'' = (2, 1, None)"
proof -
  have a: "Atoi ''4'' = Inr 4" by code_simp
  have b: "(4::int) < 2 ^ (intSize - 1) - 1" by (simp add: intSize_def)
  have c: "locate_spec (''ab'' @ [CR, LF] @ ''cd'' @ [LF]) 4 = (2, 1)" by code_simp
  from C9_amended[OF a b, of "''ab'' @ [CR, LF] @ ''cd'' @ [LF]"] c a b show ?thesis by simp
qed

text \<open>
  C10. For every script and every position string on which \<open>strconv.Atoi\<close> fails,
  \<open>extractLineColumn\<close> returns line 0, column 0 and that error; for every position
  string that parses, it returns a \<open>nil\<close> error.
\<close>

theorem C10:
  "(\<forall>err. Atoi pos = Inl err \<longrightarrow> extractLineColumn script pos = (0, 0, Some err))
   \<and> (\<forall>n. Atoi pos = Inr n \<longrightarrow> snd (snd (extractLineColumn script pos)) = None)"
  by (auto simp: extractLineColumn_def Let_def split: prod.split)

theorem C10_witness:
  "Atoi ''12x'' = Inl ErrSyntax \<and> extractLineColumn ''select 1'' ''12x'' = (0, 0, Some ErrSyntax)
   \<and> Atoi ''3'' = Inr 3 \<and> snd (snd (extractLineColumn ''select 1'' ''3'')) = None"
proof -
  have a: "Atoi ''12x'' = Inl ErrSyntax" by code_simp
  have b: "Atoi ''3'' = Inr 3" by code_simp
  from C10[of "''12x''" "''select 1''"] a
  have "extractLineColumn ''select 1'' ''12x'' = (0, 0, Some ErrSyntax)" by blast
  moreover from C10[of "''3''" "''select 1''"] b
  have "snd (snd (extractLineColumn ''select 1'' ''3'')) = None" by blast
  ultimately show ?thesis using a b by simp
qed

section \<open>Properties of script execution\<close>

lemma SQL_Exec_Conn:
  "SQL_Exec d Conn statement w = (r, w1) \<Longrightarrow>
   ledger w1 = ledger w \<and> txn w1 = txn w \<and> prefix (durable w) (durable w1)
   \<and> trace w1 = trace w @ [EvExec Conn statement]"
  by (auto simp: SQL_Exec_def Let_def split: option.splits)

lemma execScript_loop_Conn:
  "execScript_loop d Conn statements w = (r, w1) \<Longrightarrow>
   ledger w1 = ledger w \<and> txn w1 = txn w \<and> prefix (durable w) (durable w1)
   \<and> (\<exists>es. trace w1 = trace w @ es \<and> set es \<subseteq> range (EvExec Conn))"
proof (induction statements arbitrary: w)
  case Nil
  then show ?case by simp
next
  case (Cons statement rest)
  show ?case
  proof (cases "statement = [] \<or> str_IsEmpty statement")
    case True
    with Cons show ?thesis by (auto split: if_splits)
  next
    case False
    obtain e w2 where ex: "SQL_Exec d Conn statement w = (e, w2)"
      by (cases "SQL_Exec d Conn statement w")
    note p = SQL_Exec_Conn[OF ex]
    show ?thesis
    proof (cases "execScript_loop d Conn rest w2 = (r, w1)")
      case True
      from Cons.IH[OF True] p show ?thesis
        by (auto intro: prefix_order.trans)
    next
      case stop: False
      with Cons.prems False ex have "w1 = w2"
        by (auto split: option.splits if_splits)
      with p show ?thesis by auto
    qed
  qed
qed

lemma execScript_Conn:
  "execScript d Conn script w = (r, w1) \<Longrightarrow>
   ledger w1 = ledger w \<and> txn w1 = txn w \<and> prefix (durable w) (durable w1)
   \<and> (\<exists>es. trace w1 = trace w @ es \<and> set es \<subseteq> range (EvExec Conn))"
  by (auto simp: execScript_def Let_def split: if_splits dest: execScript_loop_Conn)

lemma execFile_Conn:
  "execFile d os Conn filename w = (r, w1) \<Longrightarrow>
   ledger w1 = ledger w \<and> txn w1 = txn w \<and> prefix (durable w) (durable w1)
   \<and> (\<exists>es. trace w1 = trace w @ es \<and> set es \<subseteq> range (EvExec Conn))"
  by (auto simp: execFile_def split: sum.splits option.splits prod.splits dest: execScript_Conn)


lemma tx_Insert_props:
  "tx_Insert d row w = (r, w1) \<Longrightarrow>
   durable w1 = durable w \<and> ledger w1 = ledger w \<and> trace w1 = trace w @ [EvInsert (Name row)]"
  by (auto simp: tx_Insert_def Let_def split: option.splits)

lemma tx_Commit_props:
  "tx_Commit d w = (r, w1) \<Longrightarrow>
   (r = None \<and> txn w1 = None \<and> prefix (durable w) (durable w1)
      \<and> trace w1 = trace w @ [EvCommit])
   \<or> (r \<noteq> None \<and> durable w1 = durable w \<and> ledger w1 = ledger w
      \<and> (trace w1 = trace w \<or> trace w1 = trace w @ [EvCommitFailed]))"
  by (auto simp: tx_Commit_def split: option.splits)

lemma tx_AutoRollback_props:
  "durable (tx_AutoRollback w) = durable w \<and> ledger (tx_AutoRollback w) = ledger w
   \<and> (trace (tx_AutoRollback w) = trace w \<or> trace (tx_AutoRollback w) = trace w @ [EvRollback])"
  by (auto simp: tx_AutoRollback_def split: option.splits)

lemma runUpScripts_body_props:
  assumes "runUpScripts_body d os ctx migration w = (r, migration1, w1)"
  shows "prefix (durable w) (durable w1)
     \<and> (\<exists>es. trace w1 = trace w @ es
          \<and> (r \<noteq> None \<or> EvCommitFailed \<in> set es \<longrightarrow> ledger w1 = ledger w))"
proof -
  obtain e wa where f: "execFile d os Conn (scriptFilename os (Options ctx) migration ''up.sql'') w = (e, wa)"
    by (cases "execFile d os Conn (scriptFilename os (Options ctx) migration ''up.sql'') w")
  from execFile_Conn[OF f] obtain es where
    a: "ledger wa = ledger w" "prefix (durable w) (durable wa)"
       "trace wa = trace w @ es" "set es \<subseteq> range (EvExec Conn)"
    by blast
  show ?thesis
  proof (cases e)
    case (Inl err)
    with assms f have "w1 = wa" "r \<noteq> None"
      by (auto simp: runUpScripts_body_def)
    with a show ?thesis by auto
  next
    case (Inr upScript)
    obtain ei wb where i: "tx_Insert d (migration\<lparr>UpScript := upScript\<rparr>) wa = (ei, wb)"
      by (cases "tx_Insert d (migration\<lparr>UpScript := upScript\<rparr>) wa")
    note b = tx_Insert_props[OF i]
    show ?thesis
    proof (cases ei)
      case (Some err)
      with assms f i Inr have "w1 = wb"
        by (auto simp: runUpScripts_body_def Let_def)
      with a b show ?thesis by auto
    next
      case None
      obtain ec wc where c: "tx_Commit d wb = (ec, wc)"
        by (cases "tx_Commit d wb")
      from None assms f i Inr c have w1: "w1 = wc" and r: "r = None"
        by (auto simp: runUpScripts_body_def Let_def)
      from tx_Commit_props[OF c] a b w1 r show ?thesis
        by (auto intro: prefix_order.trans)
    qed
  qed
qed

lemma runUpScripts_tx_props:
  assumes "runUpScripts_tx d os ctx migration w = (r, migration1, w1)"
  shows "prefix (durable w) (durable w1)
     \<and> (\<exists>es. trace w1 = trace w @ es
          \<and> (r \<noteq> None \<or> EvCommitFailed \<in> set es \<longrightarrow> ledger w1 = ledger w))"
proof (cases "conn_Begin d w")
  case (Pair e wa)
  show ?thesis
  proof (cases e)
    case (Some err)
    with Pair assms have "w1 = wa" by (simp add: runUpScripts_tx_def)
    moreover from Pair Some have "wa = w"
      by (auto simp: conn_Begin_def split: option.splits)
    ultimately show ?thesis by simp
  next
    case None
    with Pair have wa: "wa = w\<lparr>txn := Some ([], []), trace := trace w @ [EvBegin]\<rparr>"
      by (auto simp: conn_Begin_def split: option.splits)
    obtain rb mb wb where b: "runUpScripts_body d os ctx migration wa = (rb, mb, wb)"
      by (cases "runUpScripts_body d os ctx migration wa")
    with None Pair assms have w1: "w1 = tx_AutoRollback wb" and r: "r = rb"
      by (auto simp: runUpScripts_tx_def)
    from runUpScripts_body_props[OF b] obtain es where
      p: "prefix (durable wa) (durable wb)" "trace wb = trace wa @ es"
         "rb \<noteq> None \<or> EvCommitFailed \<in> set es \<longrightarrow> ledger wb = ledger wa"
      by blast
    from tx_AutoRollback_props[of wb] p wa w1 r show ?thesis
      by auto
  qed
qed

text \<open>
  C1. The claim is that the up script runs inside the transaction, so that a failing
  statement undoes the statements before it. The source passes \<open>conn\<close>, not \<open>tx\<close>, to
  \<open>execFile\<close> for \<open>up.sql\<close>. On the up script \<open>A;\<close> LF \<open>GO\<close> LF \<open>B;\<close> LF whose second
  statement fails: both statements are sent on the connection, the error is returned,
  the rollback is issued and no ledger row is inserted, but the effect of the first
  statement stays.
\<close>

theorem C1_up_script_not_in_transaction:
  "runUpScripts (example_driver [''B;'' @ [LF]] False)
     (initFiles None (''A;'' @ [LF] @ ''GO'' @ [LF] @ ''B;'' @ [LF]))
     (example_ctx ''GO'') initMigration emptyWorld
   = (Some (DBError ''syntax error''), initMigration,
      \<lparr> durable = [''A;'' @ [LF]], ledger = [], txn = None,
        trace = [EvBegin, EvExec Conn (''A;'' @ [LF]), EvExec Conn (''B;'' @ [LF]),
                 EvRollback] \<rparr>)"
  by code_simp

text \<open>
  C2. The claim is that a segment of white space only is skipped and the segments
  after it are still executed. The source leaves \<open>execScript\<close> with \<open>return nil\<close> on
  such a segment. On the script \<open>A;\<close> LF \<open>GO\<close> LF space LF \<open>GO\<close> LF \<open>B;\<close> LF, with a
  database that accepts every statement, only \<open>A;\<close> is executed and success is
  returned.
\<close>

theorem C2_whitespace_segment_ends_script:
  "Split (''A;'' @ [LF] @ ''GO'' @ [LF] @ '' '' @ [LF] @ ''GO'' @ [LF] @ ''B;'' @ [LF])
     = [''A;'' @ [LF], '' '' @ [LF], ''B;'' @ [LF]]
   \<and> execScript (example_driver [] False) Conn
         (''A;'' @ [LF] @ ''GO'' @ [LF] @ '' '' @ [LF] @ ''GO'' @ [LF] @ ''B;'' @ [LF]) emptyWorld
     = (None, \<lparr> durable = [''A;'' @ [LF]], ledger = [], txn = None,
                 trace = [EvExec Conn (''A;'' @ [LF])] \<rparr>)"
  by code_simp

text \<open>
  C3. For every migration that has a readable \<open>notx.sql\<close>, every database and every
  driver: while the notx script is executed no transaction is begun; everything else
  that \<open>runUpScripts\<close> sends comes after the requests of the notx script; whatever
  happens later, the statements that the notx script made durable stay durable; and
  when \<open>runUpScripts\<close> returns an error, or the commit has failed, the ledger is as it
  was before the run, without a row for the migration.
\<close>

theorem C3:
  assumes "file_at os (scriptFilename os (Options ctx) migration ''notx.sql'') = Readable script"
    and "execScript d Conn script w = (e1, w1)"
    and "runUpScripts d os ctx migration w = (r, migration', w')"
  shows "EvBegin \<notin> set (events_since w w1)
     \<and> prefix (trace w1) (trace w')
     \<and> prefix (durable w1) (durable w')
     \<and> (r \<noteq> None \<longrightarrow> ledger w' = ledger w)
     \<and> (EvCommitFailed \<in> set (events_since w w') \<longrightarrow> ledger w' = ledger w)"
proof -
  from execScript_Conn[OF assms(2)] obtain es where
    n: "ledger w1 = ledger w" "trace w1 = trace w @ es" "set es \<subseteq> range (EvExec Conn)"
    by blast
  then have es: "events_since w w1 = es" "EvBegin \<notin> set es" "EvCommitFailed \<notin> set es"
    by (auto simp: events_since_def)
  have notx: "runUpScripts_notx d os ctx migration w =
      (case e1 of Some err \<Rightarrow> (Some err, migration, w1)
       | None \<Rightarrow> (None, migration\<lparr>NoTransactionScript := script\<rparr>, w1))"
    using assms(1,2)
    by (simp add: runUpScripts_notx_def os_Stat_ok_def execFile_def readFileText_def Let_def
             split: option.splits)
  have "prefix (trace w1) (trace w') \<and> prefix (durable w1) (durable w')
      \<and> (\<exists>es'. trace w' = trace w1 @ es'
            \<and> (r \<noteq> None \<or> EvCommitFailed \<in> set es' \<longrightarrow> ledger w' = ledger w1))"
  proof (cases e1)
    case (Some err)
    with notx assms(3) have "w' = w1" by (simp add: runUpScripts_def)
    then show ?thesis by simp
  next
    case None
    obtain ed m2 where dn: "runUpScripts_down os ctx (migration\<lparr>NoTransactionScript := script\<rparr>) = (ed, m2)"
      by (cases "runUpScripts_down os ctx (migration\<lparr>NoTransactionScript := script\<rparr>)")
    show ?thesis
    proof (cases ed)
      case (Some err)
      with None notx dn assms(3) have "w' = w1" by (simp add: runUpScripts_def)
      then show ?thesis by simp
    next
      case noerr: None
      with None notx dn assms(3) have "runUpScripts_tx d os ctx m2 w1 = (r, migration', w')"
        by (simp add: runUpScripts_def)
      from runUpScripts_tx_props[OF this] show ?thesis by auto
    qed
  qed
  then obtain es' where
    t: "prefix (trace w1) (trace w')" "prefix (durable w1) (durable w')"
       "trace w' = trace w1 @ es'"
       "r \<noteq> None \<or> EvCommitFailed \<in> set es' \<longrightarrow> ledger w' = ledger w1"
    by blast
  from t(3) n(2) have "events_since w w' = es @ es'"
    by (simp add: events_since_def)
  with es t n(1) show ?thesis by auto
qed

theorem C3_witness:
  "file_at (initFiles (Some (''N;'' @ [LF])) (''A;'' @ [LF] @ ''GO'' @ [LF] @ ''B;'' @ [LF]))
      (scriptFilename (initFiles (Some (''N;'' @ [LF])) (''A;'' @ [LF] @ ''GO'' @ [LF] @ ''B;'' @ [LF]))
         (Options (example_ctx ''GO'')) initMigration ''notx.sql'')
     = Readable (''N;'' @ [LF])
   \<and> execScript (example_driver [''B;'' @ [LF]] False) Conn (''N;'' @ [LF]) emptyWorld
     = (None, \<lparr> durable = [''N;'' @ [LF]], ledger = [], txn = None,
                 trace = [EvExec Conn (''N;'' @ [LF])] \<rparr>)
   \<and> runUpScripts (example_driver [''B;'' @ [LF]] False)
        (initFiles (Some (''N;'' @ [LF])) (''A;'' @ [LF] @ ''GO'' @ [LF] @ ''B;'' @ [LF]))
        (example_ctx ''GO'') initMigration emptyWorld
     = (Some (DBError ''syntax error''),
        initMigration\<lparr>NoTransactionScript := ''N;'' @ [LF]\<rparr>,
        \<lparr> durable = [''N;'' @ [LF], ''A;'' @ [LF]], ledger = [], txn = None,
          trace = [EvExec Conn (''N;'' @ [LF]), EvBegin, EvExec Conn (''A;'' @ [LF]),
                   EvExec Conn (''B;'' @ [LF]), EvRollback] \<rparr>)
   \<and> EvBegin \<notin> set (events_since emptyWorld
        \<lparr> durable = [''N;'' @ [LF]], ledger = [], txn = None,
          trace = [EvExec Conn (''N;'' @ [LF])] \<rparr>)
   \<and> prefix [''N;'' @ [LF]] [''N;'' @ [LF], ''A;'' @ [LF]]
   \<and> ledger \<lparr> durable = [''N;'' @ [LF], ''A;'' @ [LF]], ledger = [], txn = None,
          trace = [EvExec Conn (''N;'' @ [LF]), EvBegin, EvExec Conn (''A;'' @ [LF]),
                   EvExec Conn (''B;'' @ [LF]), EvRollback] \<rparr> = ledger emptyWorld
   \<and> runUpScripts (example_driver [] True)
        (initFiles (Some (''N;'' @ [LF])) (''A;'' @ [LF] @ ''GO'' @ [LF] @ ''B;'' @ [LF]))
        (example_ctx ''GO'') initMigration emptyWorld
     = (None,
        initMigration\<lparr>NoTransactionScript := ''N;'' @ [LF],
                        UpScript := ''A;'' @ [LF] @ ''GO'' @ [LF] @ ''B;'' @ [LF]\<rparr>,
        \<lparr> durable = [''N;'' @ [LF], ''A;'' @ [LF], ''B;'' @ [LF]], ledger = [], txn = None,
          trace = [EvExec Conn (''N;'' @ [LF]), EvBegin, EvExec Conn (''A;'' @ [LF]),
                   EvExec Conn (''B;'' @ [LF]), EvInsert ''202001010000-init'',
                   EvCommitFailed, EvRollback] \<rparr>)
   \<and> EvCommitFailed \<in> set (events_since emptyWorld
        \<lparr> durable = [''N;'' @ [LF], ''A;'' @ [LF], ''B;'' @ [LF]], ledger = [], txn = None,
          trace = [EvExec Conn (''N;'' @ [LF]), EvBegin, EvExec Conn (''A;'' @ [LF]),
                   EvExec Conn (''B;'' @ [LF]), EvInsert ''202001010000-init'',
                   EvCommitFailed, EvRollback] \<rparr>)
   \<and> ledger \<lparr> durable = [''N;'' @ [LF], ''A;'' @ [LF], ''B;'' @ [LF]], ledger = [], txn = None,
          trace = [EvExec Conn (''N;'' @ [LF]), EvBegin, EvExec Conn (''A;'' @ [LF]),
                   EvExec Conn (''B;'' @ [LF]), EvInsert ''202001010000-init'',
                   EvCommitFailed, EvRollback] \<rparr> = ledger emptyWorld"
proof -
  let ?os = "initFiles (Some (''N;'' @ [LF])) (''A;'' @ [LF] @ ''GO'' @ [LF] @ ''B;'' @ [LF])"
  let ?d = "example_driver [''B;'' @ [LF]] False"
  let ?c = "example_driver [] True"
  let ?wN = "\<lparr> durable = [''N;'' @ [LF]], ledger = [], txn = None,
               trace = [EvExec Conn (''N;'' @ [LF])] \<rparr>"
  have h1: "file_at ?os (scriptFilename ?os (Options (example_ctx ''GO'')) initMigration ''notx.sql'')
     = Readable (''N;'' @ [LF])"
    by code_simp
  have h2: "execScript ?d Conn (''N;'' @ [LF]) emptyWorld = (None, ?wN)"
    by code_simp
  have h3: "runUpScripts ?d ?os (example_ctx ''GO'') initMigration emptyWorld
     = (Some (DBError ''syntax error''),
        initMigration\<lparr>NoTransactionScript := ''N;'' @ [LF]\<rparr>,
        \<lparr> durable = [''N;'' @ [LF], ''A;'' @ [LF]], ledger = [], txn = None,
          trace = [EvExec Conn (''N;'' @ [LF]), EvBegin, EvExec Conn (''A;'' @ [LF]),
                   EvExec Conn (''B;'' @ [LF]), EvRollback] \<rparr>)"
    by code_simp
  have k2: "execScript ?c Conn (''N;'' @ [LF]) emptyWorld = (None, ?wN)"
    by code_simp
  have k3: "runUpScripts ?c ?os (example_ctx ''GO'') initMigration emptyWorld
     = (None,
        initMigration\<lparr>NoTransactionScript := ''N;'' @ [LF],
                        UpScript := ''A;'' @ [LF] @ ''GO'' @ [LF] @ ''B;'' @ [LF]\<rparr>,
        \<lparr> durable = [''N;'' @ [LF], ''A;'' @ [LF], ''B;'' @ [LF]], ledger = [], txn = None,
          trace = [EvExec Conn (''N;'' @ [LF]), EvBegin, EvExec Conn (''A;'' @ [LF]),
                   EvExec Conn (''B;'' @ [LF]), EvInsert ''202001010000-init'',
                   EvCommitFailed, EvRollback] \<rparr>)"
    by code_simp
  have k4: "EvCommitFailed \<in> set (events_since emptyWorld
        \<lparr> durable = [''N;'' @ [LF], ''A;'' @ [LF], ''B;'' @ [LF]], ledger = [], txn = None,
          trace = [EvExec Conn (''N;'' @ [LF]), EvBegin, EvExec Conn (''A;'' @ [LF]),
                   EvExec Conn (''B;'' @ [LF]), EvInsert ''202001010000-init'',
                   EvCommitFailed, EvRollback] \<rparr>)"
    by (simp add: events_since_def emptyWorld_def)
  from C3[OF h1 h2 h3] C3[OF h1 k2 k3] h1 h2 h3 k3 k4 show ?thesis by simp
qed

text \<open>
  C4. The claim is that a failed commit is propagated to the caller. The source calls
  \<open>tx.Commit()\<close> as a statement, drops its result and returns \<open>nil\<close>. With a commit
  that fails after the up script and the ledger insert succeeded, \<open>runUpScripts\<close>
  returns no error; the deferred rollback runs and the ledger has no row.
\<close>

theorem C4_commit_failure_not_propagated:
  "runUpScripts (example_driver [] True) (initFiles None (''A;'' @ [LF]))
     (example_ctx ''GO'') initMigration emptyWorld
   = (None, initMigration\<lparr>UpScript := ''A;'' @ [LF]\<rparr>,
      \<lparr> durable = [''A;'' @ [LF]], ledger = [], txn = None,
        trace = [EvBegin, EvExec Conn (''A;'' @ [LF]), EvInsert ''202001010000-init'',
                 EvCommitFailed, EvRollback] \<rparr>)"
  by code_simp

text \<open>
  C8. The claim is that script execution splits on the configured separator token.
  \<open>parseOptions\<close> reads the key \<open>batchSeparator\<close> into \<open>BatchSeparator\<close>, with the
  default \<open>GO\<close>, but \<open>execScript\<close> splits on the fixed expression \<open>(?m)^GO\n\<close> and
  never reads the option. With \<open>batchSeparator\<close> set to \<open>SPLIT\<close>, the up script
  \<open>A;\<close> LF \<open>SPLIT\<close> LF \<open>B;\<close> LF is sent to the database as one statement. The fixed
  expression also asks for a line feed after \<open>GO\<close>: a last line \<open>GO\<close> without one is
  no separator.
\<close>

theorem C8_separator_option_not_used:
  "parseOptions example_join (example_config None) = Some (example_options ''GO'')
   \<and> parseOptions example_join (example_config (Some ''SPLIT'')) = Some (example_options ''SPLIT'')
   \<and> BatchSeparator (Options (example_ctx ''SPLIT'')) = ''SPLIT''
   \<and> runUpScripts (example_driver [] False)
        (initFiles None (''A;'' @ [LF] @ ''SPLIT'' @ [LF] @ ''B;'' @ [LF]))
        (example_ctx ''SPLIT'') initMigration emptyWorld
     = (None, initMigration\<lparr>UpScript := ''A;'' @ [LF] @ ''SPLIT'' @ [LF] @ ''B;'' @ [LF]\<rparr>,
        \<lparr> durable = [''A;'' @ [LF] @ ''SPLIT'' @ [LF] @ ''B;'' @ [LF]],
          ledger = [initMigration\<lparr>UpScript := ''A;'' @ [LF] @ ''SPLIT'' @ [LF] @ ''B;'' @ [LF]\<rparr>],
          txn = None,
          trace = [EvBegin, EvExec Conn (''A;'' @ [LF] @ ''SPLIT'' @ [LF] @ ''B;'' @ [LF]),
                   EvInsert ''202001010000-init'', EvCommit] \<rparr>)
   \<and> Split (''A;'' @ [LF] @ ''GO'') = [''A;'' @ [LF] @ ''GO'']"
  by code_simp

end
